theory Spec2Isabelle
  imports Main "HOL-Library.Word"
begin

section \<open>The JNI binding of the LC3 codec (lc3\_jni.cpp)\<close>

text \<open>
  The binding has six entry points. Each one marshals its arguments, calls one or two
  functions of the codec library declared in \<^verbatim>\<open>lc3.h\<close>, and hands the library's result
  back. The model follows the file line by line. Everything the binding does not define
  itself is made explicit:
  \<^item> the Java heap, as a store of byte arrays addressed by reference;
  \<^item> the C heap, as a store of blocks addressed by pointer, with \<^verbatim>\<open>malloc\<close> and
    \<^verbatim>\<open>free\<close>;
  \<^item> the three JNI functions the binding calls;
  \<^item> the codec library, as a record of functions (a parameter of every entry point).
\<close>

subsection \<open>Values\<close>

text \<open>
  \<^verbatim>\<open>jbyte\<close> is 8 bits wide and \<^verbatim>\<open>jlong\<close> 64. A handle is a pointer cast to
  \<^verbatim>\<open>jlong\<close> by \<^verbatim>\<open>reinterpret_cast\<close>, so handles and pointers share one type and the
  cast is the identity; the null pointer is 0. \<^verbatim>\<open>jint\<close>, \<^verbatim>\<open>jsize\<close> and C's
  \<^verbatim>\<open>int\<close> have the same width and the binding does no arithmetic on them, so they are
  modelled as \<open>int\<close>. \<^verbatim>\<open>unsigned\<close> sizes are \<open>nat\<close>. A Java array reference is
  \<open>Some r\<close>, and Java's \<^verbatim>\<open>null\<close> is \<open>None\<close>. The source's array parameters
  \<^verbatim>\<open>pcm_\<close>, \<^verbatim>\<open>out_\<close> and \<^verbatim>\<open>in_\<close> are written \<open>pcm_arr\<close>, \<open>out_arr\<close> and
  \<open>in_arr\<close>.
\<close>

type_synonym jbyte = "8 word"
type_synonym jlong = "64 word"
type_synonym addr = "64 word"
type_synonym jref = nat
type_synonym jbyteArray = "jref option"

text \<open>
  What C++ and JNI leave undefined is a value of the model: a call that reaches one of
  these never returns an integer to Java.
  \<^item> \<open>JniNullArray\<close>: a JNI function received \<^verbatim>\<open>NULL\<close> where the JNI specification
    requires an array (``must not be NULL''); Android's runtime aborts the process there.
  \<^item> \<open>JniBadRef\<close>: a reference that names no array of the Java heap.
  \<^item> \<open>BadFree\<close>: \<^verbatim>\<open>free\<close> of a pointer that is not a live block.
  \<^item> \<open>BadHandle\<close>: the codec library dereferenced a pointer that is not a live instance.
\<close>

datatype fault = JniNullArray | JniBadRef | BadFree | BadHandle

text \<open>
  A block of the C heap is either as \<^verbatim>\<open>malloc\<close> left it (its size is all that is known
  of it) or holds a codec instance put there by one of the library's setup functions.
\<close>

datatype 'i block = Raw nat | Inst 'i

type_synonym 'i cheap = "addr \<rightharpoonup> 'i block"

text \<open>
  \<open>pool\<close> lists the addresses the allocator will try next, in order: it stands for the
  allocator's choices, which differ from one run of the process to another.
\<close>

record 'i world =
  arrays :: "jref \<rightharpoonup> jbyte list"
  blocks :: "'i cheap"
  pool :: "addr list"

subsection \<open>malloc and free\<close>

text \<open>
  \<^verbatim>\<open>malloc\<close> returns an address that is neither null nor in use, or \<^verbatim>\<open>NULL\<close> when
  the allocator has none left. A request of size 0 gets a block of its own, as on
  Android's C library.
\<close>

definition malloc :: "'i world \<Rightarrow> nat \<Rightarrow> addr \<times> 'i world" where
  "malloc w sz =
     (case dropWhile (\<lambda>a. a = 0 \<or> blocks w a \<noteq> None) (pool w) of
        [] \<Rightarrow> (0, w)
      | a # rest \<Rightarrow> (a, w\<lparr>blocks := (blocks w)(a \<mapsto> Raw sz), pool := rest\<rparr>))"

definition free :: "'i world \<Rightarrow> addr \<Rightarrow> fault + 'i world" where
  "free w p =
     (if p = 0 then Inr w
      else case blocks w p of
             None \<Rightarrow> Inl BadFree
           | Some b \<Rightarrow> Inr (w\<lparr>blocks := (blocks w)(p := None)\<rparr>))"

subsection \<open>The JNI functions the binding calls\<close>

text \<open>
  \<^verbatim>\<open>GetByteArrayElements\<close> hands native code a buffer with the array's bytes. The model
  takes the copying implementation (the one a moving collector uses): the buffer is a
  copy, and what native code writes to it reaches the array only when the buffer is
  released with mode 0. Mode \<^verbatim>\<open>JNI_ABORT\<close> frees the buffer and copies nothing back.
\<close>

definition GetByteArrayElements :: "'i world \<Rightarrow> jbyteArray \<Rightarrow> fault + jbyte list" where
  "GetByteArrayElements w a =
     (case a of
        None \<Rightarrow> Inl JniNullArray
      | Some r \<Rightarrow> (case arrays w r of None \<Rightarrow> Inl JniBadRef | Some bs \<Rightarrow> Inr bs))"

definition GetArrayLength :: "'i world \<Rightarrow> jbyteArray \<Rightarrow> fault + int" where
  "GetArrayLength w a =
     (case a of
        None \<Rightarrow> Inl JniNullArray
      | Some r \<Rightarrow> (case arrays w r of None \<Rightarrow> Inl JniBadRef | Some bs \<Rightarrow> Inr (int (length bs))))"

datatype release_mode = CopyBack | JNI_ABORT

text \<open>
  A Java array never changes its length: copying back overwrites the array's own bytes
  with the buffer's, position by position, and no more.
\<close>

definition copy_back :: "jbyte list \<Rightarrow> jbyte list \<Rightarrow> jbyte list" where
  "copy_back old buf = take (length old) buf @ drop (length buf) old"

definition ReleaseByteArrayElements ::
  "'i world \<Rightarrow> jbyteArray \<Rightarrow> jbyte list option \<Rightarrow> release_mode \<Rightarrow> fault + 'i world" where
  "ReleaseByteArrayElements w a elems mode =
     (case a of
        None \<Rightarrow> Inl JniNullArray
      | Some r \<Rightarrow>
          (case arrays w r of
             None \<Rightarrow> Inl JniBadRef
           | Some old \<Rightarrow>
               (case (mode, elems) of
                  (CopyBack, Some buf) \<Rightarrow> Inr (w\<lparr>arrays := (arrays w)(r \<mapsto> copy_back old buf)\<rparr>)
                | _ \<Rightarrow> Inr w)))"

subsection \<open>The codec library, as the binding sees it\<close>

text \<open>
  The six functions of \<^verbatim>\<open>lc3.h\<close> that the binding calls, with the arguments in the
  order of the C prototypes. The C heap is passed in and handed back where the function
  takes a pointer to an instance. A buffer is passed by value; the output buffer is handed
  back as the function left it. The input buffers are \<^verbatim>\<open>const\<close>. The compressed input of
  \<open>lc3_decode\<close> is \<open>None\<close> for a null pointer.
\<close>

record 'i codec =
  lc3_encoder_size :: "int \<Rightarrow> int \<Rightarrow> nat"
  lc3_setup_encoder :: "int \<Rightarrow> int \<Rightarrow> int \<Rightarrow> addr \<Rightarrow> 'i cheap \<Rightarrow> addr \<times> 'i cheap"
  lc3_encode ::
    "'i cheap \<Rightarrow> addr \<Rightarrow> int \<Rightarrow> jbyte list \<Rightarrow> int \<Rightarrow> int \<Rightarrow> jbyte list
       \<Rightarrow> fault + (int \<times> 'i cheap \<times> jbyte list)"
  lc3_decoder_size :: "int \<Rightarrow> int \<Rightarrow> nat"
  lc3_setup_decoder :: "int \<Rightarrow> int \<Rightarrow> int \<Rightarrow> addr \<Rightarrow> 'i cheap \<Rightarrow> addr \<times> 'i cheap"
  lc3_decode ::
    "'i cheap \<Rightarrow> addr \<Rightarrow> jbyte list option \<Rightarrow> int \<Rightarrow> int \<Rightarrow> jbyte list \<Rightarrow> int
       \<Rightarrow> fault + (int \<times> 'i cheap \<times> jbyte list)"

subsection \<open>The entry points\<close>

text \<open>Statements run in sequence; the first fault ends the call.\<close>

definition and_then :: "fault + 'a \<Rightarrow> ('a \<Rightarrow> fault + 'b) \<Rightarrow> fault + 'b" where
  "and_then r f = (case r of Inl e \<Rightarrow> Inl e | Inr x \<Rightarrow> f x)"

definition createEncoder ::
  "'i codec \<Rightarrow> 'i world \<Rightarrow> int \<Rightarrow> int \<Rightarrow> int \<Rightarrow> jlong \<times> 'i world" where
  "createEncoder cod w dtUs srHz srPcmHz =
     (let sz = lc3_encoder_size cod dtUs srHz;
          (mem, w1) = malloc w sz;
          (enc, m) = lc3_setup_encoder cod dtUs srHz srPcmHz mem (blocks w1)
      in (enc, w1\<lparr>blocks := m\<rparr>))"

definition freeEncoder :: "'i world \<Rightarrow> jlong \<Rightarrow> fault + 'i world" where
  "freeEncoder w handle = (if handle \<noteq> 0 then free w handle else Inr w)"

definition encode ::
  "'i codec \<Rightarrow> 'i world \<Rightarrow> jlong \<Rightarrow> int \<Rightarrow> jbyteArray \<Rightarrow> int \<Rightarrow> jbyteArray
     \<Rightarrow> fault + (int \<times> 'i world)" where
  "encode cod w handle fmt pcm_arr stride out_arr =
     and_then (GetByteArrayElements w pcm_arr) (\<lambda>pcm.
     and_then (GetByteArrayElements w out_arr) (\<lambda>out.
     and_then (GetArrayLength w out_arr) (\<lambda>nbytes.
     and_then (lc3_encode cod (blocks w) handle fmt pcm stride nbytes out) (\<lambda>(ret, m, out').
     and_then (ReleaseByteArrayElements (w\<lparr>blocks := m\<rparr>) pcm_arr (Some pcm) JNI_ABORT) (\<lambda>w1.
     and_then (ReleaseByteArrayElements w1 out_arr (Some out') CopyBack) (\<lambda>w2.
     Inr (ret, w2)))))))"

definition createDecoder ::
  "'i codec \<Rightarrow> 'i world \<Rightarrow> int \<Rightarrow> int \<Rightarrow> int \<Rightarrow> jlong \<times> 'i world" where
  "createDecoder cod w dtUs srHz srPcmHz =
     (let sz = lc3_decoder_size cod dtUs srHz;
          (mem, w1) = malloc w sz;
          (dec, m) = lc3_setup_decoder cod dtUs srHz srPcmHz mem (blocks w1)
      in (dec, w1\<lparr>blocks := m\<rparr>))"

definition freeDecoder :: "'i world \<Rightarrow> jlong \<Rightarrow> fault + 'i world" where
  "freeDecoder w handle = (if handle \<noteq> 0 then free w handle else Inr w)"

text \<open>
  In \<open>decode\<close> the input array may be null on line 71 (the buffer is then the null
  pointer), but lines 74 and 78 pass the same reference to \<^verbatim>\<open>GetArrayLength\<close> and
  \<^verbatim>\<open>ReleaseByteArrayElements\<close> without a test.
\<close>

definition decode ::
  "'i codec \<Rightarrow> 'i world \<Rightarrow> jlong \<Rightarrow> jbyteArray \<Rightarrow> int \<Rightarrow> jbyteArray \<Rightarrow> int
     \<Rightarrow> fault + (int \<times> 'i world)" where
  "decode cod w handle in_arr fmt pcm_arr stride =
     and_then (if in_arr \<noteq> None then map_sum id Some (GetByteArrayElements w in_arr)
               else Inr None) (\<lambda>inp.
     and_then (GetByteArrayElements w pcm_arr) (\<lambda>pcm.
     and_then (GetArrayLength w in_arr) (\<lambda>nbytes.
     and_then (lc3_decode cod (blocks w) handle inp nbytes fmt pcm stride) (\<lambda>(ret, m, pcm').
     and_then (ReleaseByteArrayElements (w\<lparr>blocks := m\<rparr>) in_arr inp JNI_ABORT) (\<lambda>w1.
     and_then (ReleaseByteArrayElements w1 pcm_arr (Some pcm') CopyBack) (\<lambda>w2.
     Inr (ret, w2)))))))"

text \<open>Calling a release function \<open>n\<close> times in a row, stopping at the first fault.\<close>

fun repeat_free :: "('i world \<Rightarrow> jlong \<Rightarrow> fault + 'i world) \<Rightarrow> nat \<Rightarrow> 'i world \<Rightarrow> jlong
    \<Rightarrow> fault + 'i world" where
  "repeat_free f 0 w handle = Inr w"
| "repeat_free f (Suc n) w handle =
     (case f w handle of Inl e \<Rightarrow> Inl e | Inr w' \<Rightarrow> repeat_free f n w' handle)"

subsection \<open>A Java caller that encodes a sequence of frames\<close>

text \<open>
  The caller keeps one PCM array \<open>p\<close> and one output array \<open>q\<close>. For each frame it
  stores the frame's bytes in \<open>p\<close>, calls \<open>encode\<close>, and records the returned integer
  with the contents of \<open>q\<close>. \<open>run_encoder\<close> constructs the encoder first.
\<close>

fun encode_frames ::
  "'i codec \<Rightarrow> 'i world \<Rightarrow> jlong \<Rightarrow> int \<Rightarrow> int \<Rightarrow> jref \<Rightarrow> jref \<Rightarrow> jbyte list list
     \<Rightarrow> fault + (int \<times> jbyte list) list" where
  "encode_frames cod w handle fmt stride p q [] = Inr []"
| "encode_frames cod w handle fmt stride p q (f # fs) =
     and_then (encode cod (w\<lparr>arrays := (arrays w)(p \<mapsto> f)\<rparr>) handle fmt (Some p) stride (Some q))
       (\<lambda>(ret, w').
     and_then (encode_frames cod w' handle fmt stride p q fs) (\<lambda>rest.
     Inr ((ret, case arrays w' q of None \<Rightarrow> [] | Some bs \<Rightarrow> bs) # rest)))"

definition run_encoder ::
  "'i codec \<Rightarrow> 'i world \<Rightarrow> int \<Rightarrow> int \<Rightarrow> int \<Rightarrow> int \<Rightarrow> int \<Rightarrow> jref \<Rightarrow> jref \<Rightarrow> jbyte list list
     \<Rightarrow> fault + (int \<times> jbyte list) list" where
  "run_encoder cod w dtUs srHz srPcmHz fmt stride p q frames =
     (let (handle, w') = createEncoder cod w dtUs srHz srPcmHz
      in encode_frames cod w' handle fmt stride p q frames)"

section \<open>The codec library, modelled from the specification\<close>

text \<open>
  The library's sources (\<^verbatim>\<open>lc3.h\<close> and the implementation behind it) are not among the
  files of the binding. What the specification says of the codec core is written down
  here; what it leaves to the transform pipeline is a field of \<open>core\<close>.
\<close>

datatype codec_error = UnsupportedConfig | BufferTooSmall | UnsupportedFormat

datatype sample_format = Int16 | Int24 | Float32

text \<open>
  Modelled from the spec: the codec core behind \<^verbatim>\<open>lc3.h\<close>, which is missing. The fields
  are the parts the specification names without defining them:
  \<^item> \<open>frame_ok\<close>: the (frame duration, sample rate) pair is in the supported set;
    \<open>pcm_ok\<close>: the PCM rate forms a supported combination with that pair;
  \<^item> \<open>enc_size\<close>, \<open>dec_size\<close>: the fixed footprint of an instance;
  \<^item> \<open>format_of\<close>: the enumerated sample format an integer stands for, if any;
  \<^item> \<open>enc_init\<close>, \<open>dec_init\<close>: the state of a freshly constructed instance;
  \<^item> \<open>min_bytes\<close>: the minimum output capacity for the configured bitrate;
  \<^item> \<open>enc_bytes\<close>, \<open>enc_next\<close>: the compressed bytes of a frame, and the history after it;
  \<^item> \<open>enc_fail\<close>: the history after a call that failed validation. Section 8 leaves open
    whether such a call advances the history, so the model does not decide it;
  \<^item> \<open>dec_frame\<close>: what \<open>decode\<close> does with a frame, an empty one standing for a lost
    packet: the status, the PCM buffer and the history after the call. Sections 6 and 7
    disagree on the status of a concealed frame, so the model does not decide it.
\<close>

record ('e, 'd) core =
  frame_ok :: "int \<Rightarrow> int \<Rightarrow> bool"
  pcm_ok :: "int \<Rightarrow> int \<Rightarrow> int \<Rightarrow> bool"
  enc_size :: "int \<Rightarrow> int \<Rightarrow> nat"
  dec_size :: "int \<Rightarrow> int \<Rightarrow> nat"
  format_of :: "int \<Rightarrow> sample_format option"
  enc_init :: "int \<Rightarrow> int \<Rightarrow> int \<Rightarrow> 'e"
  dec_init :: "int \<Rightarrow> int \<Rightarrow> int \<Rightarrow> 'd"
  min_bytes :: "'e \<Rightarrow> nat"
  enc_bytes :: "'e \<Rightarrow> sample_format \<Rightarrow> jbyte list \<Rightarrow> int \<Rightarrow> nat \<Rightarrow> jbyte list"
  enc_next :: "'e \<Rightarrow> sample_format \<Rightarrow> jbyte list \<Rightarrow> int \<Rightarrow> nat \<Rightarrow> 'e"
  enc_fail :: "'e \<Rightarrow> 'e"
  dec_frame :: "'d \<Rightarrow> jbyte list \<Rightarrow> int \<Rightarrow> jbyte list \<Rightarrow> int \<Rightarrow> int \<times> jbyte list \<times> 'd"

datatype ('e, 'd) codec_instance = EncoderState 'e | DecoderState 'd

text \<open>
  Modelled from the spec: the CodecConfig invariant (section 3), ``all three must form a
  supported combination''.
\<close>

definition supported :: "('e, 'd) core \<Rightarrow> int \<Rightarrow> int \<Rightarrow> int \<Rightarrow> bool" where
  "supported c dt sr sr_pcm = (frame_ok c dt sr \<and> pcm_ok c dt sr sr_pcm)"

text \<open>
  Modelled from the spec: \<open>createEncoder\<close> of section 6, which ``fails with
  UnsupportedConfig''; \<open>createDecoder\<close> is symmetric.
\<close>

definition new_encoder :: "('e, 'd) core \<Rightarrow> int \<Rightarrow> int \<Rightarrow> int \<Rightarrow> codec_error + 'e" where
  "new_encoder c dt sr sr_pcm =
     (if supported c dt sr sr_pcm then Inr (enc_init c dt sr sr_pcm) else Inl UnsupportedConfig)"

definition new_decoder :: "('e, 'd) core \<Rightarrow> int \<Rightarrow> int \<Rightarrow> int \<Rightarrow> codec_error + 'd" where
  "new_decoder c dt sr sr_pcm =
     (if supported c dt sr sr_pcm then Inr (dec_init c dt sr sr_pcm) else Inl UnsupportedConfig)"

text \<open>
  Modelled from the spec: the input validation of \<open>encode\<close> (sections 4.2, 4.4 and 7):
  the errors of the constraints a call violates. The specification gives each constraint
  its error and no order among them, so which one a call that violates both reports is
  not decided here. The call is valid when the list is empty.
\<close>

definition encode_errors :: "('e, 'd) core \<Rightarrow> 'e \<Rightarrow> int \<Rightarrow> int \<Rightarrow> codec_error list" where
  "encode_errors c e fmt capacity =
     (if capacity < int (min_bytes c e) then [BufferTooSmall] else []) @
     (if format_of c fmt = None then [UnsupportedFormat] else [])"

text \<open>
  Modelled from the spec: \<open>encode\<close> of sections 4.2 and 6. A call that fails validation
  writes nothing. Otherwise the encoder writes at most \<open>capacity\<close> bytes, reports how
  many, and advances the history by one frame.
\<close>

definition encode_frame ::
  "('e, 'd) core \<Rightarrow> 'e \<Rightarrow> int \<Rightarrow> jbyte list \<Rightarrow> int \<Rightarrow> int \<Rightarrow> codec_error list + (jbyte list \<times> 'e)" where
  "encode_frame c e fmt pcm stride capacity =
     (case (encode_errors c e fmt capacity, format_of c fmt) of
        ([], Some f) \<Rightarrow>
          Inr (take (nat capacity) (enc_bytes c e f pcm stride (nat capacity)),
               enc_next c e f pcm stride (nat capacity))
      | (errs, _) \<Rightarrow> Inl errs)"

text \<open>
  Modelled from the spec: the six functions of \<^verbatim>\<open>lc3.h\<close>, which is missing, as the C
  interface of the core above.
  \<^item> A size function returns the footprint of a supported pair, and 0 otherwise.
  \<^item> A setup function puts a fresh instance in the block it is given and returns the
    block's address; it returns \<^verbatim>\<open>NULL\<close> for an unsupported configuration, and for
    memory that is null or not a live block.
  \<^item> \<open>lc3_encode\<close> returns the number of bytes written, or -1 for an error (``negative
    return is reserved for error signaling'').
  \<^item> \<open>lc3_decode\<close> hands the core the first \<open>nbytes\<close> bytes of the input as the frame,
    and the empty frame when the input pointer is null (sections 3 and 4.3: zero length
    is the ``packet lost'' signal); it returns the core's status.
  \<^item> A handle that is not the address of a live instance of the right kind is a fault.
\<close>

definition lc3 :: "('e, 'd) core \<Rightarrow> ('e, 'd) codec_instance codec" where
  "lc3 c = \<lparr>
     lc3_encoder_size = (\<lambda>dt sr. if frame_ok c dt sr then enc_size c dt sr else 0),
     lc3_setup_encoder = (\<lambda>dt sr sr_pcm mem m.
        case (new_encoder c dt sr sr_pcm, m mem) of
          (Inr e, Some b) \<Rightarrow> if mem = 0 then (0, m) else (mem, m(mem \<mapsto> Inst (EncoderState e)))
        | _ \<Rightarrow> (0, m)),
     lc3_encode = (\<lambda>m enc fmt pcm stride nbytes out.
        case m enc of
          Some (Inst (EncoderState e)) \<Rightarrow>
            (case encode_frame c e fmt pcm stride nbytes of
               Inl errs \<Rightarrow> Inr (- 1, m(enc \<mapsto> Inst (EncoderState (enc_fail c e))), out)
             | Inr (bytes, e') \<Rightarrow>
                 Inr (int (length bytes), m(enc \<mapsto> Inst (EncoderState e')),
                      bytes @ drop (length bytes) out))
        | _ \<Rightarrow> Inl BadHandle),
     lc3_decoder_size = (\<lambda>dt sr. if frame_ok c dt sr then dec_size c dt sr else 0),
     lc3_setup_decoder = (\<lambda>dt sr sr_pcm mem m.
        case (new_decoder c dt sr sr_pcm, m mem) of
          (Inr d, Some b) \<Rightarrow> if mem = 0 then (0, m) else (mem, m(mem \<mapsto> Inst (DecoderState d)))
        | _ \<Rightarrow> (0, m)),
     lc3_decode = (\<lambda>m dec inp nbytes fmt pcm stride.
        case m dec of
          Some (Inst (DecoderState d)) \<Rightarrow>
            (case dec_frame c d (case inp of None \<Rightarrow> [] | Some bs \<Rightarrow> take (nat nbytes) bs)
                    fmt pcm stride of
               (ret, pcm', d') \<Rightarrow> Inr (ret, m(dec \<mapsto> Inst (DecoderState d')), pcm'))
        | _ \<Rightarrow> Inl BadHandle)
   \<rparr>"

section \<open>Concrete instances for evaluation\<close>

text \<open>
  A library stub for the binding alone: setup marks the block as an instance, the
  encoder fills the output buffer with the byte 42 and returns 0, the decoder fills the
  PCM buffer with the byte 7 and returns 0 for a frame and 1 for a null input.
\<close>

definition stub :: "unit codec" where
  "stub = \<lparr>
     lc3_encoder_size = (\<lambda>dt sr. 16),
     lc3_setup_encoder = (\<lambda>dt sr sr_pcm mem m. if m mem = None then (0, m) else (mem, m(mem \<mapsto> Inst ()))),
     lc3_encode = (\<lambda>m enc fmt pcm stride nbytes out. Inr (0, m, replicate (length out) 42)),
     lc3_decoder_size = (\<lambda>dt sr. 16),
     lc3_setup_decoder = (\<lambda>dt sr sr_pcm mem m. if m mem = None then (0, m) else (mem, m(mem \<mapsto> Inst ()))),
     lc3_decode = (\<lambda>m dec inp nbytes fmt pcm stride.
        Inr (if inp = None then 1 else 0, m, replicate (length pcm) 7))
   \<rparr>"

text \<open>
  A Java heap with a four-byte array 10 and a two-byte array 20, a C heap with one live
  block at address 4096, and an allocator that hands out 8192 next.
\<close>

definition stub_world :: "unit world" where
  "stub_world = \<lparr>arrays = [10 \<mapsto> [1, 2, 3, 4], 20 \<mapsto> [0, 0]],
                 blocks = [4096 \<mapsto> Inst ()],
                 pool = [8192]\<rparr>"

text \<open>
  A small core: the history of the encoder is the previous frame, a compressed frame
  is two bytes (the byte sums of the history and of the frame), and the decoder writes
  the frame it is given, or repeats the last one when the frame is empty.
\<close>

definition toy :: "(jbyte list, jbyte list) core" where
  "toy = \<lparr>
     frame_ok = (\<lambda>dt sr. (dt = 7500 \<or> dt = 10000) \<and> sr \<in> {8000, 16000, 24000, 32000, 48000}),
     pcm_ok = (\<lambda>dt sr sr_pcm. sr \<le> sr_pcm),
     enc_size = (\<lambda>dt sr. 64),
     dec_size = (\<lambda>dt sr. 64),
     format_of = (\<lambda>n. if n = 0 then Some Int16 else if n = 1 then Some Int24
                       else if n = 2 then Some Float32 else None),
     enc_init = (\<lambda>dt sr sr_pcm. []),
     dec_init = (\<lambda>dt sr sr_pcm. []),
     min_bytes = (\<lambda>e. 2),
     enc_bytes = (\<lambda>e f pcm stride n. [sum_list e, sum_list pcm]),
     enc_next = (\<lambda>e f pcm stride n. pcm),
     enc_fail = (\<lambda>e. e),
     dec_frame = (\<lambda>d frame fmt pcm stride.
        if frame = [] then (0, d @ drop (length d) pcm, d)
        else (0, frame @ drop (length frame) pcm, frame))
   \<rparr>"

text \<open>
  Two processes with the same Java arrays and different C heaps: in the first the
  allocator hands out 4096, in the second it skips the null address and a block that
  is in use and hands out 12288.
\<close>

definition toy_world :: "(jbyte list, jbyte list) codec_instance world" where
  "toy_world = \<lparr>arrays = [10 \<mapsto> [1, 2, 3, 4], 20 \<mapsto> [0, 0, 0]],
                blocks = Map.empty,
                pool = [4096]\<rparr>"

definition toy_world' :: "(jbyte list, jbyte list) codec_instance world" where
  "toy_world' = \<lparr>arrays = [10 \<mapsto> [1, 2, 3, 4], 20 \<mapsto> [0, 0, 0]],
                 blocks = [8192 \<mapsto> Raw 8],
                 pool = [0, 8192, 12288]\<rparr>"

text \<open>A process with a live encoder at 4096.\<close>

definition toy_live :: "(jbyte list, jbyte list) codec_instance world" where
  "toy_live = \<lparr>arrays = [10 \<mapsto> [1, 2, 3, 4], 20 \<mapsto> [0, 0, 0]],
               blocks = [4096 \<mapsto> Inst (EncoderState [])],
               pool = []\<rparr>"

section \<open>What a call of the binding computes\<close>

text \<open>
  With both arrays present, \<open>encode\<close> is one call of the library on copies of the
  arrays, followed by the copy-back of the output buffer; \<open>decode\<close> likewise. A call
  that returns had both arrays present.
\<close>

lemma copy_back_same: "copy_back out out = out"
  by (simp add: copy_back_def)

lemma length_copy_back: "length (copy_back old buf) = length old"
  by (simp add: copy_back_def)

lemma encode_eq:
  "arrays w p = Some pcm \<Longrightarrow> arrays w q = Some out \<Longrightarrow>
   encode cod w h fmt (Some p) st (Some q) =
     (case lc3_encode cod (blocks w) h fmt pcm st (int (length out)) out of
        Inl e \<Rightarrow> Inl e
      | Inr (ret, m, out') \<Rightarrow>
          Inr (ret, w\<lparr>blocks := m, arrays := (arrays w)(q \<mapsto> copy_back out out')\<rparr>))"
  by (simp add: encode_def and_then_def GetByteArrayElements_def GetArrayLength_def
      ReleaseByteArrayElements_def split: sum.splits prod.splits)

lemma encode_returns:
  "encode cod w h fmt pa st oa = Inr (ret, w') \<Longrightarrow>
   \<exists>p q pcm out m out'. pa = Some p \<and> oa = Some q \<and> arrays w p = Some pcm \<and> arrays w q = Some out
     \<and> lc3_encode cod (blocks w) h fmt pcm st (int (length out)) out = Inr (ret, m, out')
     \<and> w' = w\<lparr>blocks := m, arrays := (arrays w)(q \<mapsto> copy_back out out')\<rparr>"
  by (auto simp: encode_def and_then_def GetByteArrayElements_def GetArrayLength_def
      ReleaseByteArrayElements_def split: sum.splits prod.splits option.splits)

lemma decode_eq:
  "arrays w i = Some inp \<Longrightarrow> arrays w q = Some pcm \<Longrightarrow>
   decode cod w h (Some i) fmt (Some q) st =
     (case lc3_decode cod (blocks w) h (Some inp) (int (length inp)) fmt pcm st of
        Inl e \<Rightarrow> Inl e
      | Inr (ret, m, pcm') \<Rightarrow>
          Inr (ret, w\<lparr>blocks := m, arrays := (arrays w)(q \<mapsto> copy_back pcm pcm')\<rparr>))"
  by (simp add: decode_def and_then_def GetByteArrayElements_def GetArrayLength_def
      ReleaseByteArrayElements_def split: sum.splits prod.splits)

lemma decode_returns:
  "decode cod w h ia fmt pa st = Inr (ret, w') \<Longrightarrow>
   \<exists>i q inp pcm m pcm'. ia = Some i \<and> pa = Some q \<and> arrays w i = Some inp \<and> arrays w q = Some pcm
     \<and> lc3_decode cod (blocks w) h (Some inp) (int (length inp)) fmt pcm st = Inr (ret, m, pcm')
     \<and> w' = w\<lparr>blocks := m, arrays := (arrays w)(q \<mapsto> copy_back pcm pcm')\<rparr>"
  by (auto simp: decode_def and_then_def GetByteArrayElements_def GetArrayLength_def
      ReleaseByteArrayElements_def split: sum.splits prod.splits option.splits if_splits)

lemma stub_arrays:
  "arrays stub_world 10 = Some [1, 2, 3, 4]" "arrays stub_world 20 = Some [0, 0]"
  by (simp_all add: stub_world_def)

lemma stub_encode:
  "encode stub stub_world 4096 0 (Some 10) 2 (Some 20)
     = Inr (0, stub_world\<lparr>arrays := (arrays stub_world)(20 \<mapsto> [42, 42])\<rparr>)"
  by (simp add: encode_eq stub_arrays stub_def copy_back_def)

lemma stub_decode:
  "decode stub stub_world 4096 (Some 20) 0 (Some 10) 2
     = Inr (0, stub_world\<lparr>arrays := (arrays stub_world)(10 \<mapsto> [7, 7, 7, 7])\<rparr>)"
  by (simp add: decode_eq stub_arrays stub_def copy_back_def)

section \<open>Releasing an instance\<close>

lemma repeat_free_null:
  "f w 0 = Inr w \<Longrightarrow> repeat_free f n w 0 = Inr w"
  by (induction n) simp_all

text \<open>
  C3. \<open>freeEncoder\<close> and \<open>freeDecoder\<close> leave the whole state as it is when the handle
  is zero, and so does any number of such calls in a row. For a nonzero handle that is
  a live block of the C heap they return normally, and the state afterwards is the one
  before with that block removed from the C heap: every other block, every Java array
  and the allocator are as they were.
\<close>

theorem free_handle:
  "freeEncoder w 0 = Inr w \<and> freeDecoder w 0 = Inr w
   \<and> repeat_free freeEncoder n w 0 = Inr w \<and> repeat_free freeDecoder n w 0 = Inr w
   \<and> (handle \<noteq> 0 \<and> blocks w handle \<noteq> None \<longrightarrow>
        freeEncoder w handle = Inr (w\<lparr>blocks := (blocks w)(handle := None)\<rparr>)
        \<and> freeDecoder w handle = Inr (w\<lparr>blocks := (blocks w)(handle := None)\<rparr>))"
proof -
  have e: "freeEncoder w 0 = Inr w" and d: "freeDecoder w 0 = Inr w"
    by (simp_all add: freeEncoder_def freeDecoder_def)
  have "handle \<noteq> 0 \<Longrightarrow> blocks w handle \<noteq> None \<Longrightarrow>
      freeEncoder w handle = Inr (w\<lparr>blocks := (blocks w)(handle := None)\<rparr>)
      \<and> freeDecoder w handle = Inr (w\<lparr>blocks := (blocks w)(handle := None)\<rparr>)"
    by (auto simp: freeEncoder_def freeDecoder_def free_def)
  then show ?thesis
    using e d by (auto simp: repeat_free_null)
qed

theorem free_handle_witness:
  "(4096 :: jlong) \<noteq> 0 \<and> blocks stub_world 4096 \<noteq> None
   \<and> freeEncoder stub_world 4096 = Inr (stub_world\<lparr>blocks := Map.empty\<rparr>)
   \<and> freeDecoder stub_world 4096 = Inr (stub_world\<lparr>blocks := Map.empty\<rparr>)
   \<and> repeat_free freeEncoder 3 stub_world 0 = Inr stub_world"
  using free_handle [of stub_world 3 4096]
  by (simp add: stub_world_def)

section \<open>Forwarding\<close>

text \<open>
  C10. \<open>encode\<close> and \<open>decode\<close> forward to the library. Whenever one of them returns
  an integer, both arrays were present, and that integer is the result of
  \<open>lc3_encode\<close> (of \<open>lc3_decode\<close>) called with the C heap, the handle, the format and
  the stride as the binding received them, the contents of the arrays, and the length of
  the output array (of the input array) as the byte count. Conversely, whenever both
  arrays are present and the library returns an integer on those arguments, the binding
  returns it: no argument is checked, clamped or translated on the way.
\<close>

theorem forwarding:
  "(encode cod w handle fmt pcm_arr stride out_arr = Inr (ret, w') \<longrightarrow>
      (\<exists>p q pcm out m out'. pcm_arr = Some p \<and> out_arr = Some q
         \<and> arrays w p = Some pcm \<and> arrays w q = Some out
         \<and> lc3_encode cod (blocks w) handle fmt pcm stride (int (length out)) out
             = Inr (ret, m, out')))
   \<and> (decode cod w handle in_arr fmt pcm_arr stride = Inr (ret, w') \<longrightarrow>
      (\<exists>i q inp pcm m pcm'. in_arr = Some i \<and> pcm_arr = Some q
         \<and> arrays w i = Some inp \<and> arrays w q = Some pcm
         \<and> lc3_decode cod (blocks w) handle (Some inp) (int (length inp)) fmt pcm stride
             = Inr (ret, m, pcm')))
   \<and> (\<forall>p q pcm out m out'. arrays w p = Some pcm \<and> arrays w q = Some out
         \<and> lc3_encode cod (blocks w) handle fmt pcm stride (int (length out)) out
             = Inr (ret, m, out')
         \<longrightarrow> (\<exists>w''. encode cod w handle fmt (Some p) stride (Some q) = Inr (ret, w'')))
   \<and> (\<forall>i q inp pcm m pcm'. arrays w i = Some inp \<and> arrays w q = Some pcm
         \<and> lc3_decode cod (blocks w) handle (Some inp) (int (length inp)) fmt pcm stride
             = Inr (ret, m, pcm')
         \<longrightarrow> (\<exists>w''. decode cod w handle (Some i) fmt (Some q) stride = Inr (ret, w'')))"
proof (intro conjI impI allI)
  assume "encode cod w handle fmt pcm_arr stride out_arr = Inr (ret, w')"
  from encode_returns [OF this]
  show "\<exists>p q pcm out m out'. pcm_arr = Some p \<and> out_arr = Some q
         \<and> arrays w p = Some pcm \<and> arrays w q = Some out
         \<and> lc3_encode cod (blocks w) handle fmt pcm stride (int (length out)) out
             = Inr (ret, m, out')"
    by blast
next
  assume "decode cod w handle in_arr fmt pcm_arr stride = Inr (ret, w')"
  from decode_returns [OF this]
  show "\<exists>i q inp pcm m pcm'. in_arr = Some i \<and> pcm_arr = Some q
         \<and> arrays w i = Some inp \<and> arrays w q = Some pcm
         \<and> lc3_decode cod (blocks w) handle (Some inp) (int (length inp)) fmt pcm stride
             = Inr (ret, m, pcm')"
    by blast
next
  fix p q pcm out m out'
  assume "arrays w p = Some pcm \<and> arrays w q = Some out
         \<and> lc3_encode cod (blocks w) handle fmt pcm stride (int (length out)) out
             = Inr (ret, m, out')"
  then show "\<exists>w''. encode cod w handle fmt (Some p) stride (Some q) = Inr (ret, w'')"
    by (simp add: encode_eq)
next
  fix i q inp pcm m pcm'
  assume "arrays w i = Some inp \<and> arrays w q = Some pcm
         \<and> lc3_decode cod (blocks w) handle (Some inp) (int (length inp)) fmt pcm stride
             = Inr (ret, m, pcm')"
  then show "\<exists>w''. decode cod w handle (Some i) fmt (Some q) stride = Inr (ret, w'')"
    by (simp add: decode_eq)
qed

theorem forwarding_witness:
  "encode stub stub_world 4096 0 (Some 10) 2 (Some 20)
     = Inr (0, stub_world\<lparr>arrays := (arrays stub_world)(20 \<mapsto> [42, 42])\<rparr>)
   \<and> decode stub stub_world 4096 (Some 20) 0 (Some 10) 2
     = Inr (0, stub_world\<lparr>arrays := (arrays stub_world)(10 \<mapsto> [7, 7, 7, 7])\<rparr>)
   \<and> (\<exists>m out'. lc3_encode stub (blocks stub_world) 4096 0 [1, 2, 3, 4] 2 2 [0, 0] = Inr (0, m, out'))
   \<and> (\<exists>m pcm'. lc3_decode stub (blocks stub_world) 4096 (Some [0, 0]) 2 0 [1, 2, 3, 4] 2
         = Inr (0, m, pcm'))"
  using forwarding [of stub stub_world 4096 0 "Some 10" 2 "Some 20" 0
      "stub_world\<lparr>arrays := (arrays stub_world)(20 \<mapsto> [42, 42])\<rparr>" "Some 20"]
    forwarding [of stub stub_world 4096 0 "Some 10" 2 "Some 20" 0
      "stub_world\<lparr>arrays := (arrays stub_world)(10 \<mapsto> [7, 7, 7, 7])\<rparr>" "Some 20"]
    stub_encode stub_decode
  by (simp add: stub_arrays)

section \<open>A null input array\<close>

text \<open>
  C1. A call of \<open>decode\<close> whose input array is null never returns: with the PCM array
  present it ends in \<^verbatim>\<open>GetArrayLength\<close> on the null reference (line 74), before the
  library is called, whatever the library, the handle and the other arguments are.
\<close>

theorem decode_null_input:
  "decode cod w handle None fmt pcm_arr stride =
     (case pcm_arr of
        None \<Rightarrow> Inl JniNullArray
      | Some q \<Rightarrow> (case arrays w q of None \<Rightarrow> Inl JniBadRef | Some pcm \<Rightarrow> Inl JniNullArray))"
  by (simp add: decode_def and_then_def GetByteArrayElements_def GetArrayLength_def
      split: option.splits)

section \<open>Arrays the binding writes\<close>

text \<open>
  C9, as amended. Whenever \<open>encode\<close> returns, every Java array other than the output
  array holds what it held before the call, so the PCM input is unchanged whenever it is
  not the same array object as the output; the output array holds the output buffer,
  copied back over its own length. Whenever \<open>decode\<close> returns, every Java array other
  than the PCM array holds what it held before, so the compressed input is unchanged
  whenever it is not the same array object as the PCM output.
\<close>

theorem frame_effect:
  "(encode cod w handle fmt pcm_arr stride out_arr = Inr (ret, w') \<longrightarrow>
      (\<exists>q out. out_arr = Some q \<and> arrays w q = Some out
         \<and> (\<forall>r. r \<noteq> q \<longrightarrow> arrays w' r = arrays w r)
         \<and> (\<exists>out'. arrays w' q = Some out' \<and> length out' = length out)))
   \<and> (decode cod w handle in_arr fmt pcm_arr stride = Inr (ret, w') \<longrightarrow>
      (\<exists>q pcm. pcm_arr = Some q \<and> arrays w q = Some pcm
         \<and> (\<forall>r. r \<noteq> q \<longrightarrow> arrays w' r = arrays w r)
         \<and> (\<exists>pcm'. arrays w' q = Some pcm' \<and> length pcm' = length pcm)))"
proof (intro conjI impI)
  assume "encode cod w handle fmt pcm_arr stride out_arr = Inr (ret, w')"
  from encode_returns [OF this]
  show "\<exists>q out. out_arr = Some q \<and> arrays w q = Some out
         \<and> (\<forall>r. r \<noteq> q \<longrightarrow> arrays w' r = arrays w r)
         \<and> (\<exists>out'. arrays w' q = Some out' \<and> length out' = length out)"
    by (auto simp: length_copy_back)
next
  assume "decode cod w handle in_arr fmt pcm_arr stride = Inr (ret, w')"
  from decode_returns [OF this]
  show "\<exists>q pcm. pcm_arr = Some q \<and> arrays w q = Some pcm
         \<and> (\<forall>r. r \<noteq> q \<longrightarrow> arrays w' r = arrays w r)
         \<and> (\<exists>pcm'. arrays w' q = Some pcm' \<and> length pcm' = length pcm)"
    by (auto simp: length_copy_back)
qed

theorem frame_effect_witness:
  "encode stub stub_world 4096 0 (Some 10) 2 (Some 20)
     = Inr (0, stub_world\<lparr>arrays := (arrays stub_world)(20 \<mapsto> [42, 42])\<rparr>)
   \<and> decode stub stub_world 4096 (Some 20) 0 (Some 10) 2
     = Inr (0, stub_world\<lparr>arrays := (arrays stub_world)(10 \<mapsto> [7, 7, 7, 7])\<rparr>)
   \<and> arrays (stub_world\<lparr>arrays := (arrays stub_world)(20 \<mapsto> [42, 42])\<rparr>) 10 = arrays stub_world 10
   \<and> arrays (stub_world\<lparr>arrays := (arrays stub_world)(10 \<mapsto> [7, 7, 7, 7])\<rparr>) 20 = arrays stub_world 20"
  using frame_effect [of stub stub_world 4096 0 "Some 10" 2 "Some 20" 0
      "stub_world\<lparr>arrays := (arrays stub_world)(20 \<mapsto> [42, 42])\<rparr>" "Some 20"]
    frame_effect [of stub stub_world 4096 0 "Some 10" 2 "Some 20" 0
      "stub_world\<lparr>arrays := (arrays stub_world)(10 \<mapsto> [7, 7, 7, 7])\<rparr>" "Some 20"]
    stub_encode stub_decode
  by (simp add: stub_arrays)

text \<open>
  C9 as stated fails when the caller passes one array as both input and output: the
  input buffer is discarded, but the output buffer is a second copy of the same array
  and is copied back over it. Here the array 10 holds 1, 2, 3, 4 before \<open>encode\<close> and
  the encoder's output after it.
\<close>

theorem input_array_counterexample:
  "encode stub stub_world 4096 0 (Some 10) 2 (Some 10)
     = Inr (0, stub_world\<lparr>arrays := (arrays stub_world)(10 \<mapsto> [42, 42, 42, 42])\<rparr>)
   \<and> arrays stub_world 10 = Some [1, 2, 3, 4]
   \<and> arrays (stub_world\<lparr>arrays := (arrays stub_world)(10 \<mapsto> [42, 42, 42, 42])\<rparr>) 10
       = Some [42, 42, 42, 42]"
  by (simp add: encode_eq stub_arrays stub_def copy_back_def)

section \<open>The binding over the modelled library\<close>

text \<open>
  From here on the library is \<open>lc3 c\<close>, for an arbitrary core \<open>c\<close>. A call of the
  library's encoder returns only for a handle that is the address of a live encoder, and
  then it is the core's \<open>encode_frame\<close> on that encoder's history.
\<close>

lemma lc3_encode_live:
  "m h = Some (Inst (EncoderState e)) \<Longrightarrow>
   lc3_encode (lc3 c) m h fmt pcm st n out =
     (case encode_frame c e fmt pcm st n of
        Inl errs \<Rightarrow> Inr (- 1, m(h \<mapsto> Inst (EncoderState (enc_fail c e))), out)
      | Inr (bytes, e') \<Rightarrow>
          Inr (int (length bytes), m(h \<mapsto> Inst (EncoderState e')), bytes @ drop (length bytes) out))"
  by (simp add: lc3_def)

lemma lc3_encode_returns:
  "lc3_encode (lc3 c) m h fmt pcm st n out = Inr r \<Longrightarrow> \<exists>e. m h = Some (Inst (EncoderState e))"
  by (auto simp: lc3_def split: option.splits block.splits codec_instance.splits)

lemma lc3_decode_returns:
  "lc3_decode (lc3 c) m h inp n fmt pcm st = Inr r \<Longrightarrow> \<exists>d. m h = Some (Inst (DecoderState d))"
  by (auto simp: lc3_def split: option.splits block.splits codec_instance.splits)

lemma encode_frame_length:
  "encode_frame c e fmt pcm st cap = Inr (bytes, e') \<Longrightarrow>
   int (length bytes) \<le> cap \<and> int (min_bytes c e) \<le> cap \<and> format_of c fmt \<noteq> None"
  by (auto simp: encode_frame_def encode_errors_def split: if_splits option.splits list.splits)

lemma toy_live_lookup:
  "arrays toy_live 10 = Some [1, 2, 3, 4]" "arrays toy_live 20 = Some [0, 0, 0]"
  "blocks toy_live 4096 = Some (Inst (EncoderState []))"
  by (simp_all add: toy_live_def)

lemma toy_encode_frame:
  "encode_frame toy [] 0 [1, 2, 3, 4] 2 3 = Inr ([0, 10], [1, 2, 3, 4])"
  by (simp add: encode_frame_def encode_errors_def toy_def)

lemma toy_encode:
  "encode (lc3 toy) toy_live 4096 0 (Some 10) 2 (Some 20)
     = Inr (2, toy_live\<lparr>blocks := (blocks toy_live)(4096 \<mapsto> Inst (EncoderState [1, 2, 3, 4])),
                        arrays := (arrays toy_live)(20 \<mapsto> [0, 10, 0])\<rparr>)"
  by (simp add: encode_eq lc3_encode_live toy_live_lookup toy_encode_frame copy_back_def)

subsection \<open>Output capacity and the returned count\<close>

text \<open>
  C2. Whenever \<open>encode\<close> returns, the capacity the encoder was given is the length of
  the caller's output array, the returned integer is at most that length, and it is
  negative (it is -1) exactly when the encoder reported an error; otherwise it is the
  number of bytes written.
\<close>

theorem encode_capacity:
  "encode (lc3 c) w handle fmt pcm_arr stride out_arr = Inr (ret, w') \<Longrightarrow>
   \<exists>p q pcm out e. pcm_arr = Some p \<and> out_arr = Some q
     \<and> arrays w p = Some pcm \<and> arrays w q = Some out
     \<and> blocks w handle = Some (Inst (EncoderState e))
     \<and> ret \<le> int (length out)
     \<and> (case encode_frame c e fmt pcm stride (int (length out)) of
           Inl errs \<Rightarrow> ret = - 1
         | Inr (bytes, e') \<Rightarrow> ret = int (length bytes))"
proof -
  assume a: "encode (lc3 c) w handle fmt pcm_arr stride out_arr = Inr (ret, w')"
  from encode_returns [OF a] obtain p q pcm out m out' where
    pq: "pcm_arr = Some p" "out_arr = Some q" "arrays w p = Some pcm" "arrays w q = Some out"
    and l: "lc3_encode (lc3 c) (blocks w) handle fmt pcm stride (int (length out)) out
              = Inr (ret, m, out')"
    by blast
  from lc3_encode_returns [OF l] obtain e where e: "blocks w handle = Some (Inst (EncoderState e))"
    by blast
  have "ret \<le> int (length out) \<and>
        (case encode_frame c e fmt pcm stride (int (length out)) of
           Inl errs \<Rightarrow> ret = - 1
         | Inr (bytes, e') \<Rightarrow> ret = int (length bytes))"
    using l e encode_frame_length [of c e fmt pcm stride "int (length out)"]
    by (auto simp: lc3_encode_live split: sum.splits)
  with pq e show ?thesis by blast
qed

theorem encode_capacity_witness:
  "encode (lc3 toy) toy_live 4096 0 (Some 10) 2 (Some 20)
     = Inr (2, toy_live\<lparr>blocks := (blocks toy_live)(4096 \<mapsto> Inst (EncoderState [1, 2, 3, 4])),
                        arrays := (arrays toy_live)(20 \<mapsto> [0, 10, 0])\<rparr>)
   \<and> (2 :: int) \<le> int (length [0, 0, 0 :: jbyte])
   \<and> encode_frame toy [] 0 [1, 2, 3, 4] 2 3 = Inr ([0, 10], [1, 2, 3, 4])"
  using encode_capacity [OF toy_encode] toy_encode toy_encode_frame
  by simp

subsection \<open>Unsupported configurations\<close>

text \<open>
  \<^verbatim>\<open>malloc\<close> leaves the Java heap alone, and returns either null, with the state as it
  was, or the address of a fresh block.
\<close>

lemma malloc_arrays: "malloc w sz = (a, w1) \<Longrightarrow> arrays w1 = arrays w"
  by (auto simp: malloc_def split: list.splits)

lemma malloc_blocks:
  "malloc w sz = (a, w1) \<Longrightarrow>
   (a = 0 \<and> w1 = w) \<or> (a \<noteq> 0 \<and> blocks w a = None \<and> blocks w1 = (blocks w)(a \<mapsto> Raw sz))"
proof -
  assume m: "malloc w sz = (a, w1)"
  show ?thesis
  proof (cases "dropWhile (\<lambda>a. a = 0 \<or> blocks w a \<noteq> None) (pool w)")
    case Nil
    from m have "a = 0 \<and> w1 = w"
      unfolding malloc_def Nil by simp
    then show ?thesis by simp
  next
    case (Cons b rest)
    from m have r: "a = b \<and> w1 = w\<lparr>blocks := (blocks w)(b \<mapsto> Raw sz), pool := rest\<rparr>"
      unfolding malloc_def Cons by auto
    have "\<not> (b = 0 \<or> blocks w b \<noteq> None)"
      using hd_dropWhile [of "\<lambda>a. a = 0 \<or> blocks w a \<noteq> None" "pool w"]
      unfolding Cons by simp
    with r show ?thesis by auto
  qed
qed

text \<open>
  What \<open>createEncoder\<close> and \<open>createDecoder\<close> leave behind: a nonzero handle is the
  address of a fresh instance in its initial state, and the configuration is supported;
  with a zero handle no instance was added.
\<close>

lemma createEncoder_lc3:
  "createEncoder (lc3 c) w dt sr sp = (h, w') \<Longrightarrow>
   arrays w' = arrays w \<and>
   (if h = 0 then (\<forall>a i. blocks w' a = Some (Inst i) \<longrightarrow> blocks w a = Some (Inst i))
                  \<and> (blocks w 0 = None \<longrightarrow> blocks w' 0 = None)
    else supported c dt sr sp \<and> blocks w h = None
         \<and> blocks w' = (blocks w)(h \<mapsto> Inst (EncoderState (enc_init c dt sr sp))))"
proof -
  assume a: "createEncoder (lc3 c) w dt sr sp = (h, w')"
  obtain mem w1 where m: "malloc w (lc3_encoder_size (lc3 c) dt sr) = (mem, w1)"
    by (cases "malloc w (lc3_encoder_size (lc3 c) dt sr)")
  from malloc_arrays [OF m] malloc_blocks [OF m] a m show ?thesis
    by (auto simp: createEncoder_def lc3_def new_encoder_def split: if_splits option.splits)
qed

lemma createDecoder_lc3:
  "createDecoder (lc3 c) w dt sr sp = (h, w') \<Longrightarrow>
   arrays w' = arrays w \<and>
   (if h = 0 then (\<forall>a i. blocks w' a = Some (Inst i) \<longrightarrow> blocks w a = Some (Inst i))
                  \<and> (blocks w 0 = None \<longrightarrow> blocks w' 0 = None)
    else supported c dt sr sp \<and> blocks w h = None
         \<and> blocks w' = (blocks w)(h \<mapsto> Inst (DecoderState (dec_init c dt sr sp))))"
proof -
  assume a: "createDecoder (lc3 c) w dt sr sp = (h, w')"
  obtain mem w1 where m: "malloc w (lc3_decoder_size (lc3 c) dt sr) = (mem, w1)"
    by (cases "malloc w (lc3_decoder_size (lc3 c) dt sr)")
  from malloc_arrays [OF m] malloc_blocks [OF m] a m show ?thesis
    by (auto simp: createDecoder_def lc3_def new_decoder_def split: if_splits option.splits)
qed

text \<open>
  A handle that is not the address of a live instance of the right kind cannot be used:
  no call with it returns.
\<close>

lemma encode_dead_handle:
  "\<forall>e. blocks w h \<noteq> Some (Inst (EncoderState e)) \<Longrightarrow>
   \<exists>f. encode (lc3 c) w h fmt pa st oa = Inl f"
proof (cases "encode (lc3 c) w h fmt pa st oa")
  case (Inl f)
  then show ?thesis by simp
next
  case (Inr r)
  assume dead: "\<forall>e. blocks w h \<noteq> Some (Inst (EncoderState e))"
  obtain ret w' where "r = (ret, w')" by (cases r)
  with Inr encode_returns [of "lc3 c" w h fmt pa st oa ret w'] lc3_encode_returns [of c "blocks w" h]
  have "\<exists>e. blocks w h = Some (Inst (EncoderState e))" by blast
  with dead show ?thesis by simp
qed

lemma decode_dead_handle:
  "\<forall>d. blocks w h \<noteq> Some (Inst (DecoderState d)) \<Longrightarrow>
   \<exists>f. decode (lc3 c) w h ia fmt pa st = Inl f"
proof (cases "decode (lc3 c) w h ia fmt pa st")
  case (Inl f)
  then show ?thesis by simp
next
  case (Inr r)
  assume dead: "\<forall>d. blocks w h \<noteq> Some (Inst (DecoderState d))"
  obtain ret w' where "r = (ret, w')" by (cases r)
  with Inr decode_returns [of "lc3 c" w h ia fmt pa st ret w'] lc3_decode_returns [of c "blocks w" h]
  have "\<exists>d. blocks w h = Some (Inst (DecoderState d))" by blast
  with dead show ?thesis by simp
qed

text \<open>
  C4. For a parameter triple that is not a supported combination, construction fails
  with \<open>UnsupportedConfig\<close> in the core, and \<open>createEncoder\<close> and \<open>createDecoder\<close>
  return the null handle. The C heap holds no instance that was not there before, and
  the handle is not usable: no call of \<open>encode\<close> or \<open>decode\<close> with it returns. (The null
  address is assumed not to be a block of the C heap before the call.) The block the
  binding obtained from \<^verbatim>\<open>malloc\<close> stays allocated: no handle refers to it.
\<close>

theorem unsupported_config:
  "\<not> supported c dtUs srHz srPcmHz \<Longrightarrow> blocks w 0 = None \<Longrightarrow>
   new_encoder c dtUs srHz srPcmHz = Inl UnsupportedConfig
   \<and> new_decoder c dtUs srHz srPcmHz = Inl UnsupportedConfig
   \<and> fst (createEncoder (lc3 c) w dtUs srHz srPcmHz) = 0
   \<and> fst (createDecoder (lc3 c) w dtUs srHz srPcmHz) = 0
   \<and> (\<forall>a i. blocks (snd (createEncoder (lc3 c) w dtUs srHz srPcmHz)) a = Some (Inst i)
          \<longrightarrow> blocks w a = Some (Inst i))
   \<and> (\<forall>a i. blocks (snd (createDecoder (lc3 c) w dtUs srHz srPcmHz)) a = Some (Inst i)
          \<longrightarrow> blocks w a = Some (Inst i))
   \<and> (\<forall>fmt pcm_arr stride out_arr. \<exists>f.
          encode (lc3 c) (snd (createEncoder (lc3 c) w dtUs srHz srPcmHz)) 0
            fmt pcm_arr stride out_arr = Inl f)
   \<and> (\<forall>in_arr fmt pcm_arr stride. \<exists>f.
          decode (lc3 c) (snd (createDecoder (lc3 c) w dtUs srHz srPcmHz)) 0
            in_arr fmt pcm_arr stride = Inl f)"
proof -
  assume u: "\<not> supported c dtUs srHz srPcmHz" and z: "blocks w 0 = None"
  obtain he we where e: "createEncoder (lc3 c) w dtUs srHz srPcmHz = (he, we)"
    by (cases "createEncoder (lc3 c) w dtUs srHz srPcmHz")
  obtain hd wd where d: "createDecoder (lc3 c) w dtUs srHz srPcmHz = (hd, wd)"
    by (cases "createDecoder (lc3 c) w dtUs srHz srPcmHz")
  from createEncoder_lc3 [OF e] u have he: "he = 0"
    by (auto split: if_splits)
  from createDecoder_lc3 [OF d] u have hd: "hd = 0"
    by (auto split: if_splits)
  from createEncoder_lc3 [OF e] he z
  have ie: "\<forall>a i. blocks we a = Some (Inst i) \<longrightarrow> blocks w a = Some (Inst i)"
    and ze: "blocks we 0 = None" by simp_all
  from createDecoder_lc3 [OF d] hd z
  have id: "\<forall>a i. blocks wd a = Some (Inst i) \<longrightarrow> blocks w a = Some (Inst i)"
    and zd: "blocks wd 0 = None" by simp_all
  have ue: "\<forall>fmt pa st oa. \<exists>f. encode (lc3 c) we 0 fmt pa st oa = Inl f"
    using encode_dead_handle [of we 0 c] ze by simp
  have ud: "\<forall>ia fmt pa st. \<exists>f. decode (lc3 c) wd 0 ia fmt pa st = Inl f"
    using decode_dead_handle [of wd 0 c] zd by simp
  from u have "new_encoder c dtUs srHz srPcmHz = Inl UnsupportedConfig"
    and "new_decoder c dtUs srHz srPcmHz = Inl UnsupportedConfig"
    by (simp_all add: new_encoder_def new_decoder_def)
  with e d he hd ie id ue ud show ?thesis by simp
qed

lemma toy_unsupported: "\<not> supported toy 5000 16000 16000"
  by (simp add: supported_def toy_def)

lemma toy_create_unsupported:
  "createEncoder (lc3 toy) toy_world 5000 16000 16000
     = (0, toy_world\<lparr>blocks := [4096 \<mapsto> Raw 0], pool := []\<rparr>)"
  "createDecoder (lc3 toy) toy_world 5000 16000 16000
     = (0, toy_world\<lparr>blocks := [4096 \<mapsto> Raw 0], pool := []\<rparr>)"
  by (simp_all add: createEncoder_def createDecoder_def malloc_def lc3_def new_encoder_def
      new_decoder_def supported_def toy_def toy_world_def)

theorem unsupported_config_witness:
  "\<not> supported toy 5000 16000 16000 \<and> blocks toy_world 0 = None
   \<and> createEncoder (lc3 toy) toy_world 5000 16000 16000
       = (0, toy_world\<lparr>blocks := [4096 \<mapsto> Raw 0], pool := []\<rparr>)
   \<and> createDecoder (lc3 toy) toy_world 5000 16000 16000
       = (0, toy_world\<lparr>blocks := [4096 \<mapsto> Raw 0], pool := []\<rparr>)
   \<and> new_encoder toy 5000 16000 16000 = Inl UnsupportedConfig
   \<and> (\<exists>f. encode (lc3 toy) (toy_world\<lparr>blocks := [4096 \<mapsto> Raw 0], pool := []\<rparr>) 0
             0 (Some 10) 2 (Some 20) = Inl f)"
proof -
  have z: "blocks toy_world 0 = None" by (simp add: toy_world_def)
  from unsupported_config [OF toy_unsupported z] toy_unsupported z toy_create_unsupported
  show ?thesis by simp
qed

subsection \<open>Two runs of the same frames\<close>

text \<open>
  One call of \<open>encode\<close> on a live encoder, in terms of the core alone; and two callers
  whose encoders have the same history and whose output arrays hold the same bytes get
  the same results for the same frames, wherever their encoders live.
\<close>

lemma world_arrays_same:
  "arrays w q = Some out \<Longrightarrow> w\<lparr>arrays := (arrays w)(q \<mapsto> out)\<rparr> = w"
  by (simp add: map_upd_triv)

lemma encode_lc3:
  "blocks w h = Some (Inst (EncoderState e)) \<Longrightarrow> arrays w p = Some pcm \<Longrightarrow>
   arrays w q = Some out \<Longrightarrow>
   encode (lc3 c) w h fmt (Some p) st (Some q) =
     (case encode_frame c e fmt pcm st (int (length out)) of
        Inl errs \<Rightarrow>
          Inr (- 1, w\<lparr>blocks := (blocks w)(h \<mapsto> Inst (EncoderState (enc_fail c e)))\<rparr>)
      | Inr (bytes, e') \<Rightarrow>
          Inr (int (length bytes),
               w\<lparr>blocks := (blocks w)(h \<mapsto> Inst (EncoderState e')),
                 arrays := (arrays w)(q \<mapsto> copy_back out (bytes @ drop (length bytes) out))\<rparr>))"
  by (simp add: encode_eq lc3_encode_live copy_back_same world_arrays_same map_upd_triv
      split: sum.splits)

lemma encode_frames_agree:
  "blocks w1 h1 = Some (Inst (EncoderState e)) \<Longrightarrow>
   blocks w2 h2 = Some (Inst (EncoderState e)) \<Longrightarrow>
   arrays w1 q = arrays w2 q \<Longrightarrow>
   encode_frames (lc3 c) w1 h1 fmt st p q fs = encode_frames (lc3 c) w2 h2 fmt st p q fs"
proof (induction fs arbitrary: w1 w2 e)
  case Nil
  then show ?case by simp
next
  case (Cons f fs)
  let ?v1 = "w1\<lparr>arrays := (arrays w1)(p \<mapsto> f)\<rparr>"
  let ?v2 = "w2\<lparr>arrays := (arrays w2)(p \<mapsto> f)\<rparr>"
  have q: "arrays ?v1 q = arrays ?v2 q"
    using Cons.prems(3) by simp
  show ?case
  proof (cases "arrays ?v1 q")
    case None
    with q have "arrays ?v2 q = None" by simp
    with None show ?thesis
      by (simp add: encode_def and_then_def GetByteArrayElements_def)
  next
    case (Some out)
    with q have s2: "arrays ?v2 q = Some out" by simp
    have p1: "arrays ?v1 p = Some f" and p2: "arrays ?v2 p = Some f" by simp_all
    have b1: "blocks ?v1 h1 = Some (Inst (EncoderState e))"
      and b2: "blocks ?v2 h2 = Some (Inst (EncoderState e))"
      using Cons.prems by simp_all
    note s1 = encode_lc3 [OF b1 p1 Some, of c fmt st]
    note s2' = encode_lc3 [OF b2 p2 s2, of c fmt st]
    show ?thesis
    proof (cases "encode_frame c e fmt f st (int (length out))")
      case (Inl errs)
      let ?u1 = "?v1\<lparr>blocks := (blocks ?v1)(h1 \<mapsto> Inst (EncoderState (enc_fail c e)))\<rparr>"
      let ?u2 = "?v2\<lparr>blocks := (blocks ?v2)(h2 \<mapsto> Inst (EncoderState (enc_fail c e)))\<rparr>"
      have e1: "encode (lc3 c) ?v1 h1 fmt (Some p) st (Some q) = Inr (- 1, ?u1)"
        by (simp only: s1 Inl sum.case)
      have e2: "encode (lc3 c) ?v2 h2 fmt (Some p) st (Some q) = Inr (- 1, ?u2)"
        by (simp only: s2' Inl sum.case)
      have o1: "arrays ?u1 q = Some out" and o2: "arrays ?u2 q = Some out"
        using Some s2 by simp_all
      have l1: "blocks ?u1 h1 = Some (Inst (EncoderState (enc_fail c e)))"
        and l2: "blocks ?u2 h2 = Some (Inst (EncoderState (enc_fail c e)))" by simp_all
      from o1 o2 have "arrays ?u1 q = arrays ?u2 q" by (simp only:)
      note ih = Cons.IH [OF l1 l2 this]
      show ?thesis
        by (simp only: encode_frames.simps e1 e2 ih and_then_def sum.case prod.case o1 o2)
    next
      case (Inr r)
      obtain bytes e' where r: "r = (bytes, e')" by (cases r)
      let ?o = "copy_back out (bytes @ drop (length bytes) out)"
      let ?u1 = "?v1\<lparr>blocks := (blocks ?v1)(h1 \<mapsto> Inst (EncoderState e')),
                       arrays := (arrays ?v1)(q \<mapsto> ?o)\<rparr>"
      let ?u2 = "?v2\<lparr>blocks := (blocks ?v2)(h2 \<mapsto> Inst (EncoderState e')),
                       arrays := (arrays ?v2)(q \<mapsto> ?o)\<rparr>"
      have e1: "encode (lc3 c) ?v1 h1 fmt (Some p) st (Some q) = Inr (int (length bytes), ?u1)"
        by (simp only: s1 Inr r sum.case prod.case)
      have e2: "encode (lc3 c) ?v2 h2 fmt (Some p) st (Some q) = Inr (int (length bytes), ?u2)"
        by (simp only: s2' Inr r sum.case prod.case)
      have o1: "arrays ?u1 q = Some ?o" and o2: "arrays ?u2 q = Some ?o" by simp_all
      have l1: "blocks ?u1 h1 = Some (Inst (EncoderState e'))"
        and l2: "blocks ?u2 h2 = Some (Inst (EncoderState e'))" by simp_all
      from o1 o2 have "arrays ?u1 q = arrays ?u2 q" by (simp only:)
      note ih = Cons.IH [OF l1 l2 this]
      show ?thesis
        by (simp only: encode_frames.simps e1 e2 ih and_then_def sum.case prod.case o1 o2)
    qed
  qed
qed

text \<open>
  C7. Two runs start in processes whose C heaps and allocators may differ and whose
  output array holds the same bytes. In each a fresh encoder is constructed with the
  same configuration, successfully (the handle is not null), and the same sequence of
  frames is encoded with the same format and stride. Then both runs produce the same
  sequence of results: the same returned integers and the same bytes in the output array
  after every call, or the same fault.
\<close>

theorem encoder_deterministic:
  "arrays w1 q = arrays w2 q \<Longrightarrow>
   fst (createEncoder (lc3 c) w1 dtUs srHz srPcmHz) \<noteq> 0 \<Longrightarrow>
   fst (createEncoder (lc3 c) w2 dtUs srHz srPcmHz) \<noteq> 0 \<Longrightarrow>
   run_encoder (lc3 c) w1 dtUs srHz srPcmHz fmt stride p q frames
     = run_encoder (lc3 c) w2 dtUs srHz srPcmHz fmt stride p q frames"
proof -
  assume q: "arrays w1 q = arrays w2 q"
    and n1: "fst (createEncoder (lc3 c) w1 dtUs srHz srPcmHz) \<noteq> 0"
    and n2: "fst (createEncoder (lc3 c) w2 dtUs srHz srPcmHz) \<noteq> 0"
  obtain h1 v1 where c1: "createEncoder (lc3 c) w1 dtUs srHz srPcmHz = (h1, v1)"
    by (cases "createEncoder (lc3 c) w1 dtUs srHz srPcmHz")
  obtain h2 v2 where c2: "createEncoder (lc3 c) w2 dtUs srHz srPcmHz = (h2, v2)"
    by (cases "createEncoder (lc3 c) w2 dtUs srHz srPcmHz")
  from createEncoder_lc3 [OF c1] n1 c1
  have b1: "blocks v1 h1 = Some (Inst (EncoderState (enc_init c dtUs srHz srPcmHz)))"
    and a1: "arrays v1 = arrays w1" by simp_all
  from createEncoder_lc3 [OF c2] n2 c2
  have b2: "blocks v2 h2 = Some (Inst (EncoderState (enc_init c dtUs srHz srPcmHz)))"
    and a2: "arrays v2 = arrays w2" by simp_all
  from q a1 a2 have "arrays v1 q = arrays v2 q" by simp
  from encode_frames_agree [OF b1 b2 this] c1 c2 show ?thesis
    by (simp add: run_encoder_def)
qed

lemma toy_create:
  "createEncoder (lc3 toy) toy_world 10000 16000 16000
     = (4096, toy_world\<lparr>blocks := [4096 \<mapsto> Inst (EncoderState [])], pool := []\<rparr>)"
  "createEncoder (lc3 toy) toy_world' 10000 16000 16000
     = (12288, toy_world'\<lparr>blocks := [8192 \<mapsto> Raw 8, 12288 \<mapsto> Inst (EncoderState [])],
                           pool := []\<rparr>)"
  by (simp_all add: createEncoder_def malloc_def lc3_def new_encoder_def supported_def toy_def
      toy_world_def toy_world'_def)

lemma toy_frames:
  "encode_frame toy [] 0 [1, 2, 3, 4] 2 3 = Inr ([0, 10], [1, 2, 3, 4])"
  "encode_frame toy [1, 2, 3, 4] 0 [5, 6, 7, 8] 2 3 = Inr ([10, 26], [5, 6, 7, 8])"
  by (simp_all add: encode_frame_def encode_errors_def toy_def)

lemma toy_run:
  "run_encoder (lc3 toy) toy_world 10000 16000 16000 0 2 10 20 [[1, 2, 3, 4], [5, 6, 7, 8]]
     = Inr [(2, [0, 10, 0]), (2, [10, 26, 0])]"
proof -
  have "encode_frames (lc3 toy)
          (toy_world\<lparr>blocks := [4096 \<mapsto> Inst (EncoderState [])], pool := []\<rparr>)
          4096 0 2 10 20 [[1, 2, 3, 4], [5, 6, 7, 8]]
        = Inr [(2, [0, 10, 0]), (2, [10, 26, 0])]"
    by (simp add: toy_world_def and_then_def
        encode_lc3 [where e = "[]" and pcm = "[1, 2, 3, 4]" and out = "[0, 0, 0]"]
        encode_lc3 [where e = "[1, 2, 3, 4]" and pcm = "[5, 6, 7, 8]" and out = "[0, 10, 0]"]
        toy_frames copy_back_def)
  then show ?thesis
    by (simp only: run_encoder_def toy_create Let_def prod.case)
qed

theorem encoder_deterministic_witness:
  "arrays toy_world 20 = arrays toy_world' 20
   \<and> fst (createEncoder (lc3 toy) toy_world 10000 16000 16000) = 4096
   \<and> fst (createEncoder (lc3 toy) toy_world' 10000 16000 16000) = 12288
   \<and> run_encoder (lc3 toy) toy_world 10000 16000 16000 0 2 10 20 [[1, 2, 3, 4], [5, 6, 7, 8]]
       = Inr [(2, [0, 10, 0]), (2, [10, 26, 0])]
   \<and> run_encoder (lc3 toy) toy_world' 10000 16000 16000 0 2 10 20 [[1, 2, 3, 4], [5, 6, 7, 8]]
       = Inr [(2, [0, 10, 0]), (2, [10, 26, 0])]"
proof -
  have a: "arrays toy_world 20 = arrays toy_world' 20"
    by (simp add: toy_world_def toy_world'_def)
  have n1: "fst (createEncoder (lc3 toy) toy_world 10000 16000 16000) \<noteq> 0"
    and n2: "fst (createEncoder (lc3 toy) toy_world' 10000 16000 16000) \<noteq> 0"
    by (simp_all add: toy_create)
  from encoder_deterministic [OF a n1 n2, of 0 2 10 "[[1, 2, 3, 4], [5, 6, 7, 8]]"] toy_run a
  show ?thesis by (simp add: toy_create)
qed

end
